theory Spec2Isabelle
  imports Main "HOL-Library.AList" "HOL-Library.Char_ord" "HOL-Library.List_Lexorder"
begin

section \<open>Python values, exceptions and the transport\<close>

text \<open>
  The client of \<^verbatim>\<open>mediawiki.py\<close> handles decoded JSON bodies and parameter
  dictionaries without declaring their shape, so the model keeps one type of Python
  values. A dictionary is an association list in insertion order, read with
  \<open>map_of\<close>; decoded dictionaries have distinct keys. JSON numbers are integers
  here. \<open>PTuple\<close> never comes out of a decoder: it is what a trailing comma in the
  source builds.
\<close>

datatype pyval =
    PNone
  | PBool bool
  | PInt int
  | PStr string
  | PList "pyval list"
  | PDict "(string \<times> pyval) list"
  | PTuple "pyval list"

text \<open>
  The text of a \<open>MediaWikiAPIError\<close> is either a formatted template or the value
  found under the body's \<open>error\<close> or \<open>warning\<close> key. The two templates of the
  source are kept with their argument instead of the formatted string.
\<close>

datatype message =
    Status_code_is int
  | Login_result_is pyval
  | Payload pyval

text \<open>
  Exceptions. \<open>MediaWikiAPIError\<close> and \<open>CanNotDelete\<close> are the two classes of
  the module; the others are the built-in exceptions that its dictionary accesses can
  raise. \<open>Unmodelled\<close> is no Python exception: it marks the one path the model does
  not follow (\<open>dict.update\<close> with a non-empty sequence of pairs).
\<close>

datatype error =
    MediaWikiAPIError message
  | CanNotDelete pyval
  | NotImplementedError
  | KeyError string
  | TypeError
  | ValueError
  | AttributeError
  | JSONDecodeError
  | Unmodelled

definition bind_err :: "error + 'a \<Rightarrow> ('a \<Rightarrow> error + 'b) \<Rightarrow> error + 'b" where
  "bind_err m f = (case m of Inl e \<Rightarrow> Inl e | Inr a \<Rightarrow> f a)"

text \<open>\<open>k in s\<close> on a string is a substring test.\<close>

fun substring :: "string \<Rightarrow> string \<Rightarrow> bool" where
  "substring k [] = (k = [])"
| "substring k (c # s) = (take (length k) (c # s) = k \<or> substring k s)"

text \<open>\<open>key in data\<close> for a string key.\<close>

fun py_in :: "string \<Rightarrow> pyval \<Rightarrow> error + bool" where
  "py_in k (PDict d) = Inr (map_of d k \<noteq> None)"
| "py_in k (PList xs) = Inr (PStr k \<in> set xs)"
| "py_in k (PTuple xs) = Inr (PStr k \<in> set xs)"
| "py_in k (PStr s) = Inr (substring k s)"
| "py_in k PNone = Inl TypeError"
| "py_in k (PBool b) = Inl TypeError"
| "py_in k (PInt i) = Inl TypeError"

text \<open>\<open>data[key]\<close> for a string key: only a dictionary accepts it.\<close>

fun py_getitem :: "pyval \<Rightarrow> string \<Rightarrow> error + pyval" where
  "py_getitem (PDict d) k = (case map_of d k of None \<Rightarrow> Inl (KeyError k) | Some v \<Rightarrow> Inr v)"
| "py_getitem v k = Inl TypeError"

text \<open>What a \<open>for\<close> loop iterates over.\<close>

fun py_iter :: "pyval \<Rightarrow> error + pyval list" where
  "py_iter (PList xs) = Inr xs"
| "py_iter (PTuple xs) = Inr xs"
| "py_iter (PDict d) = Inr (map (\<lambda>kv. PStr (fst kv)) d)"
| "py_iter (PStr s) = Inr (map (\<lambda>c. PStr [c]) s)"
| "py_iter v = Inl TypeError"

text \<open>
  \<open>d.update(other)\<close> on a copy of \<open>d\<close>: keys already present keep their place, new
  keys are appended, in the order of \<open>other\<close>.
\<close>

definition merge :: "(string \<times> pyval) list \<Rightarrow> (string \<times> pyval) list \<Rightarrow> (string \<times> pyval) list" where
  "merge d other = fold (\<lambda>kv. AList.update (fst kv) (snd kv)) other d"

fun dict_update :: "(string \<times> pyval) list \<Rightarrow> pyval \<Rightarrow> error + (string \<times> pyval) list" where
  "dict_update d (PDict other) = Inr (merge d other)"
| "dict_update d PNone = Inl TypeError"
| "dict_update d (PBool b) = Inl TypeError"
| "dict_update d (PInt i) = Inl TypeError"
| "dict_update d (PStr s) = (if s = [] then Inr d else Inl ValueError)"
| "dict_update d (PList xs) = (if xs = [] then Inr d else Inl Unmodelled)"
| "dict_update d (PTuple xs) = (if xs = [] then Inr d else Inl Unmodelled)"

subsection \<open>Requests, responses and the server\<close>

text \<open>
  The three call shapes of the source: \<open>session.get(url, params=p)\<close>,
  \<open>session.post(url, params=p)\<close> and \<open>session.post(url, data=p)\<close>. A response
  has a status code and a body; the body is \<open>None\<close> when \<open>r.json()\<close> cannot decode
  it. The platform is any function from its own state and a request to a response and a
  new state. The world of one session is that state with the exchanges made so far, in
  order.
\<close>

datatype request =
    Get string "(string \<times> pyval) list"
  | Post_params string "(string \<times> pyval) list"
  | Post_data string "(string \<times> pyval) list"

record response =
  status_code :: int
  body :: "pyval option"

type_synonym 's server = "'s \<Rightarrow> request \<Rightarrow> response \<times> 's"

record 's world =
  srv_state :: 's
  exchanges :: "(request \<times> response) list"

definition send :: "'s server \<Rightarrow> request \<Rightarrow> 's world \<Rightarrow> response \<times> 's world" where
  "send srv rq w =
     (case srv (srv_state w) rq of
        (r, s') \<Rightarrow> (r, \<lparr>srv_state = s', exchanges = exchanges w @ [(rq, r)]\<rparr>))"

definition requests :: "'s world \<Rightarrow> request list" where
  "requests w = map fst (exchanges w)"

text \<open>
  The lines every method repeats after a request:
  \<^verbatim>\<open>
  if r.status_code != 200: raise MediaWikiAPIError('Status code is {}'.format(r.status_code))
  data = r.json()
  if 'error' in data: raise MediaWikiAPIError(data['error'])
  \<close>
\<close>

definition check_status :: "response \<Rightarrow> error + unit" where
  "check_status r =
     (if status_code r \<noteq> 200 then Inl (MediaWikiAPIError (Status_code_is (status_code r)))
      else Inr ())"

definition r_json :: "response \<Rightarrow> error + pyval" where
  "r_json r = (case body r of None \<Rightarrow> Inl JSONDecodeError | Some data \<Rightarrow> Inr data)"

definition raise_if :: "string \<Rightarrow> pyval \<Rightarrow> error + unit" where
  "raise_if k data =
     bind_err (py_in k data) (\<lambda>b.
       if b then bind_err (py_getitem data k) (\<lambda>v. Inl (MediaWikiAPIError (Payload v)))
       else Inr ())"

definition checked_json :: "response \<Rightarrow> error + pyval" where
  "checked_json r =
     bind_err (check_status r) (\<lambda>_.
     bind_err (r_json r) (\<lambda>data.
     bind_err (raise_if ''error'' data) (\<lambda>_. Inr data)))"

section \<open>The paged queries\<close>

text \<open>
  Every generator method of both classes is the same loop:
  \<^verbatim>\<open>
  last_continue = {}
  while True:
      current_params = params.copy()
      current_params.update(last_continue)
      r = self.session.get(self.api_url, params=current_params)
      if r.status_code != 200: raise MediaWikiAPIError(...)
      data = r.json()
      if 'error' in data: raise MediaWikiAPIError(data['error'])
      items = data['query'][<list>]
      for item in items: yield <item>
      if <continuation key> not in data: break
      last_continue = <continuation of data>
  \<close>
  The methods differ in the base parameters, in the items they yield (\<open>items_of\<close>)
  and in where the continuation is read (\<open>continue_of\<close>); these are the parameters
  of \<open>paged_loop\<close>. The model consumes the generator to its end and collects what it
  yields. The source's loop has no bound of its own, so the model counts requests down
  from a fuel: \<open>Out_of_fuel\<close> says that the generator was still running after that
  many requests. \<open>items_of\<close> returns the items yielded from one body and the
  exception that stopped the inner loop, if any.
\<close>

datatype ending = Exhausted | Raised error | Out_of_fuel

fun paged_loop ::
  "nat \<Rightarrow> 's server \<Rightarrow> string \<Rightarrow> (pyval \<Rightarrow> pyval list \<times> error option) \<Rightarrow>
   (pyval \<Rightarrow> error + pyval option) \<Rightarrow> (string \<times> pyval) list \<Rightarrow> pyval \<Rightarrow> 's world \<Rightarrow>
   pyval list \<times> ending \<times> 's world" where
  "paged_loop 0 srv url items_of continue_of params last_continue w = ([], Out_of_fuel, w)"
| "paged_loop (Suc n) srv url items_of continue_of params last_continue w =
     (case dict_update params last_continue of
        Inl e \<Rightarrow> ([], Raised e, w)
      | Inr current_params \<Rightarrow>
          (case send srv (Get url current_params) w of
             (r, w1) \<Rightarrow>
               (case checked_json r of
                  Inl e \<Rightarrow> ([], Raised e, w1)
                | Inr data \<Rightarrow>
                    (case items_of data of
                       (items, Some e) \<Rightarrow> (items, Raised e, w1)
                     | (items, None) \<Rightarrow>
                         (case continue_of data of
                            Inl e \<Rightarrow> (items, Raised e, w1)
                          | Inr None \<Rightarrow> (items, Exhausted, w1)
                          | Inr (Some c) \<Rightarrow>
                              (case paged_loop n srv url items_of continue_of params c w1 of
                                 (ys, e, w2) \<Rightarrow> (items @ ys, e, w2)))))))"

text \<open>
  The end of the loop body. Class \<open>MediaWikiAPI1_19\<close>:
  \<^verbatim>\<open>
  if 'query-continue' not in data: break
  last_continue = data['query-continue'][<list>]
  \<close>
  Class \<open>MediaWikiAPI1_31\<close>:
  \<^verbatim>\<open>
  if 'continue' not in data: break
  last_continue = data['continue']
  \<close>
\<close>

definition continue_1_19 :: "string \<Rightarrow> pyval \<Rightarrow> error + pyval option" where
  "continue_1_19 list_name data =
     bind_err (py_in ''query-continue'' data) (\<lambda>b.
       if \<not> b then Inr None
       else bind_err (py_getitem data ''query-continue'') (\<lambda>qc.
            bind_err (py_getitem qc list_name) (\<lambda>c. Inr (Some c))))"

definition continue_1_31 :: "pyval \<Rightarrow> error + pyval option" where
  "continue_1_31 data =
     bind_err (py_in ''continue'' data) (\<lambda>b.
       if \<not> b then Inr None
       else bind_err (py_getitem data ''continue'') (\<lambda>c. Inr (Some c)))"

text \<open>\<open>data['query'][<list>]\<close>, then the iteration over it.\<close>

definition query_list :: "string \<Rightarrow> pyval \<Rightarrow> error + pyval list" where
  "query_list list_name data =
     bind_err (py_getitem data ''query'') (\<lambda>q.
     bind_err (py_getitem q list_name) py_iter)"

text \<open>\<open>for page_data in pages: yield page_data['title']\<close>\<close>

fun yield_titles :: "pyval list \<Rightarrow> pyval list \<times> error option" where
  "yield_titles [] = ([], None)"
| "yield_titles (page_data # rest) =
     (case py_getitem page_data ''title'' of
        Inl e \<Rightarrow> ([], Some e)
      | Inr t \<Rightarrow> (case yield_titles rest of (ys, e) \<Rightarrow> (t # ys, e)))"

definition titles_of :: "string \<Rightarrow> pyval \<Rightarrow> pyval list \<times> error option" where
  "titles_of list_name data =
     (case query_list list_name data of
        Inl e \<Rightarrow> ([], Some e)
      | Inr pages \<Rightarrow> yield_titles pages)"

text \<open>\<open>yield {'title': image_data['title'], 'url': image_data['url']}\<close>\<close>

fun yield_images :: "pyval list \<Rightarrow> pyval list \<times> error option" where
  "yield_images [] = ([], None)"
| "yield_images (image_data # rest) =
     (case bind_err (py_getitem image_data ''title'') (\<lambda>t.
           bind_err (py_getitem image_data ''url'') (\<lambda>u.
           Inr (PDict [(''title'', t), (''url'', u)]))) of
        Inl e \<Rightarrow> ([], Some e)
      | Inr i \<Rightarrow> (case yield_images rest of (ys, e) \<Rightarrow> (i # ys, e)))"

definition images_of :: "pyval \<Rightarrow> pyval list \<times> error option" where
  "images_of data =
     (case query_list ''allimages'' data of
        Inl e \<Rightarrow> ([], Some e)
      | Inr images \<Rightarrow> yield_images images)"

text \<open>
  \<^verbatim>\<open>
  for deletedrev_data in deletedrevs:
      title = deletedrev_data['title']
      for revision in deletedrev_data['revisions']:
          revision.update({'title': title})
          yield revision
  \<close>
  Only a dictionary has an \<open>update\<close> method.
\<close>

fun yield_revisions :: "pyval \<Rightarrow> pyval list \<Rightarrow> pyval list \<times> error option" where
  "yield_revisions title [] = ([], None)"
| "yield_revisions title (revision # rest) =
     (case revision of
        PDict d \<Rightarrow>
          (case yield_revisions title rest of
             (ys, e) \<Rightarrow> (PDict (AList.update ''title'' title d) # ys, e))
      | _ \<Rightarrow> ([], Some AttributeError))"

fun yield_deletedrevs :: "pyval list \<Rightarrow> pyval list \<times> error option" where
  "yield_deletedrevs [] = ([], None)"
| "yield_deletedrevs (deletedrev_data # rest) =
     (case bind_err (py_getitem deletedrev_data ''title'') (\<lambda>title.
           bind_err (py_getitem deletedrev_data ''revisions'') (\<lambda>rs.
           bind_err (py_iter rs) (\<lambda>revisions. Inr (title, revisions)))) of
        Inl e \<Rightarrow> ([], Some e)
      | Inr (title, revisions) \<Rightarrow>
          (case yield_revisions title revisions of
             (ys, Some e) \<Rightarrow> (ys, Some e)
           | (ys, None) \<Rightarrow> (case yield_deletedrevs rest of (zs, e) \<Rightarrow> (ys @ zs, e))))"

definition deletedrevs_of :: "pyval \<Rightarrow> pyval list \<times> error option" where
  "deletedrevs_of data =
     (case query_list ''deletedrevs'' data of
        Inl e \<Rightarrow> ([], Some e)
      | Inr deletedrevs \<Rightarrow> yield_deletedrevs deletedrevs)"

subsection \<open>The two clients\<close>

record mediawiki_api =
  api_url :: string
  index_url :: string

record api1_19 = mediawiki_api +
  edit_tokens :: "(pyval \<times> pyval) list"
  delete_tokens :: "(pyval \<times> pyval) list"

record api1_31 = mediawiki_api +
  csrf_token :: pyval

definition init_1_19 :: "string \<Rightarrow> api1_19" where
  "init_1_19 url =
     \<lparr>api_url = url @ ''/api.php'', index_url = url @ ''/index.php'',
      edit_tokens = [], delete_tokens = []\<rparr>"

definition init_1_31 :: "string \<Rightarrow> api1_31" where
  "init_1_31 url =
     \<lparr>api_url = url @ ''/api.php'', index_url = url @ ''/index.php'', csrf_token = PNone\<rparr>"

definition image_list_params :: "int \<Rightarrow> (string \<times> pyval) list" where
  "image_list_params limit =
     [(''action'', PStr ''query''), (''list'', PStr ''allimages''),
      (''aidir'', PStr ''ascending''), (''ailimit'', PInt limit), (''format'', PStr ''json'')]"

definition page_list_params ::
  "int \<Rightarrow> int \<Rightarrow> string option \<Rightarrow> string \<Rightarrow> (string \<times> pyval) list" where
  "page_list_params namespace limit first_page redirect_filter_mode =
     [(''action'', PStr ''query''), (''list'', PStr ''allpages''),
      (''apnamespace'', PInt namespace), (''apdir'', PStr ''ascending''),
      (''apfilterredir'', PStr redirect_filter_mode), (''aplimit'', PInt limit),
      (''format'', PStr ''json'')]
     @ (case first_page of None \<Rightarrow> [] | Some t \<Rightarrow> [(''apfrom'', PStr t)])"

definition deletedrevs_params :: "int \<Rightarrow> int \<Rightarrow> (string \<times> pyval) list" where
  "deletedrevs_params namespace limit =
     [(''action'', PStr ''query''), (''list'', PStr ''deletedrevs''),
      (''drnamespace'', PInt namespace), (''drdir'', PStr ''newer''),
      (''drlimit'', PInt limit), (''drprop'', PStr ''revid|user|comment|content''),
      (''format'', PStr ''json'')]"

definition search_params :: "string \<Rightarrow> int \<Rightarrow> int \<Rightarrow> (string \<times> pyval) list" where
  "search_params search_request namespace limit =
     [(''action'', PStr ''query''), (''list'', PStr ''search''),
      (''srnamespace'', PInt namespace), (''srlimit'', PInt limit),
      (''format'', PStr ''json''), (''srsearch'', PStr search_request),
      (''srwhat'', PStr ''text'')]"

definition get_image_list_1_19 ::
  "nat \<Rightarrow> 's server \<Rightarrow> api1_19 \<Rightarrow> int \<Rightarrow> 's world \<Rightarrow> pyval list \<times> ending \<times> 's world" where
  "get_image_list_1_19 fuel srv self limit w =
     paged_loop fuel srv (api_url self) images_of (continue_1_19 ''allimages'')
       (image_list_params limit) (PDict []) w"

definition get_page_list_1_19 ::
  "nat \<Rightarrow> 's server \<Rightarrow> api1_19 \<Rightarrow> int \<Rightarrow> int \<Rightarrow> string option \<Rightarrow> string \<Rightarrow> 's world \<Rightarrow>
   pyval list \<times> ending \<times> 's world" where
  "get_page_list_1_19 fuel srv self namespace limit first_page redirect_filter_mode w =
     paged_loop fuel srv (api_url self) (titles_of ''allpages'') (continue_1_19 ''allpages'')
       (page_list_params namespace limit first_page redirect_filter_mode) (PDict []) w"

definition get_deletedrevs_list_1_19 ::
  "nat \<Rightarrow> 's server \<Rightarrow> api1_19 \<Rightarrow> int \<Rightarrow> int \<Rightarrow> 's world \<Rightarrow> pyval list \<times> ending \<times> 's world" where
  "get_deletedrevs_list_1_19 fuel srv self namespace limit w =
     paged_loop fuel srv (api_url self) deletedrevs_of (continue_1_19 ''deletedrevs'')
       (deletedrevs_params namespace limit) (PDict []) w"

definition get_image_list_1_31 ::
  "nat \<Rightarrow> 's server \<Rightarrow> api1_31 \<Rightarrow> int \<Rightarrow> 's world \<Rightarrow> pyval list \<times> ending \<times> 's world" where
  "get_image_list_1_31 fuel srv self limit w =
     paged_loop fuel srv (api_url self) images_of continue_1_31
       (image_list_params limit) (PDict []) w"

definition get_page_list_1_31 ::
  "nat \<Rightarrow> 's server \<Rightarrow> api1_31 \<Rightarrow> int \<Rightarrow> int \<Rightarrow> string option \<Rightarrow> string \<Rightarrow> 's world \<Rightarrow>
   pyval list \<times> ending \<times> 's world" where
  "get_page_list_1_31 fuel srv self namespace limit first_page redirect_filter_mode w =
     paged_loop fuel srv (api_url self) (titles_of ''allpages'') continue_1_31
       (page_list_params namespace limit first_page redirect_filter_mode) (PDict []) w"

definition search_pages_1_31 ::
  "nat \<Rightarrow> 's server \<Rightarrow> api1_31 \<Rightarrow> string \<Rightarrow> int \<Rightarrow> int \<Rightarrow> 's world \<Rightarrow>
   pyval list \<times> ending \<times> 's world" where
  "search_pages_1_31 fuel srv self search_request namespace limit w =
     paged_loop fuel srv (api_url self) (titles_of ''search'') continue_1_31
       (search_params search_request namespace limit) (PDict []) w"

definition get_deletedrevs_list_1_31 ::
  "nat \<Rightarrow> 's server \<Rightarrow> api1_31 \<Rightarrow> int \<Rightarrow> int \<Rightarrow> 's world \<Rightarrow> pyval list \<times> ending \<times> 's world" where
  "get_deletedrevs_list_1_31 fuel srv self namespace limit w =
     paged_loop fuel srv (api_url self) deletedrevs_of continue_1_31
       (deletedrevs_params namespace limit) (PDict []) w"

section \<open>Tokens and mutations\<close>

subsection \<open>Class \<open>MediaWikiAPI1_19\<close>: tokens per title\<close>

text \<open>
  \<^verbatim>\<open>
  def get_tokens(self, token_type, titles):
      params = {'action': 'query', 'prop': 'info', 'titles': titles,
                'intoken': token_type, 'format': 'json'}
      r = self.session.post(self.api_url, params=params)
      if r.status_code != 200: raise MediaWikiAPIError(...)
      data = r.json()
      if 'error' in data: raise MediaWikiAPIError(data['error'])
      if 'warning' in data: raise MediaWikiAPIError(data['warning'])
      return dict(map(lambda page_data: (page_data['title'],
                                         page_data['{}token'.format(token_type)]),
                      data['query']['pages'].values()))
  \<close>
  The token caches are dictionaries whose keys are whatever the bodies carry as titles,
  so they are keyed by values; their only readers look up a string. A list or a
  dictionary cannot be a key. (Python identifies the keys \<open>1\<close> and \<open>True\<close>; the
  model keeps them apart, which no lookup of a string can see.)
\<close>

fun hashable :: "pyval \<Rightarrow> bool" where
  "hashable (PList xs) = False"
| "hashable (PDict d) = False"
| "hashable (PTuple xs) = list_all hashable xs"
| "hashable v = True"

fun py_values :: "pyval \<Rightarrow> error + pyval list" where
  "py_values (PDict d) = Inr (map snd d)"
| "py_values v = Inl AttributeError"

fun token_pairs ::
  "string \<Rightarrow> pyval list \<Rightarrow> (pyval \<times> pyval) list \<Rightarrow> error + (pyval \<times> pyval) list" where
  "token_pairs token_type [] acc = Inr acc"
| "token_pairs token_type (page_data # rest) acc =
     bind_err (py_getitem page_data ''title'') (\<lambda>t.
     bind_err (py_getitem page_data (token_type @ ''token'')) (\<lambda>tok.
       if hashable t then token_pairs token_type rest (AList.update t tok acc)
       else Inl TypeError))"

definition tokens_params :: "string \<Rightarrow> string \<Rightarrow> (string \<times> pyval) list" where
  "tokens_params token_type titles =
     [(''action'', PStr ''query''), (''prop'', PStr ''info''), (''titles'', PStr titles),
      (''intoken'', PStr token_type), (''format'', PStr ''json'')]"

definition get_tokens_result :: "string \<Rightarrow> response \<Rightarrow> error + (pyval \<times> pyval) list" where
  "get_tokens_result token_type r =
     bind_err (check_status r) (\<lambda>_.
     bind_err (r_json r) (\<lambda>data.
     bind_err (raise_if ''error'' data) (\<lambda>_.
     bind_err (raise_if ''warning'' data) (\<lambda>_.
     bind_err (py_getitem data ''query'') (\<lambda>q.
     bind_err (py_getitem q ''pages'') (\<lambda>pages.
     bind_err (py_values pages) (\<lambda>ps.
     token_pairs token_type ps [])))))))"

definition get_tokens ::
  "'s server \<Rightarrow> api1_19 \<Rightarrow> string \<Rightarrow> string \<Rightarrow> 's world \<Rightarrow>
   (error + (pyval \<times> pyval) list) \<times> 's world" where
  "get_tokens srv self token_type titles w =
     (case send srv (Post_params (api_url self) (tokens_params token_type titles)) w of
        (r, w1) \<Rightarrow> (get_tokens_result token_type r, w1))"

text \<open>\<open>cache.update(new)\<close> on a token cache.\<close>

definition cache_update :: "(pyval \<times> pyval) list \<Rightarrow> (pyval \<times> pyval) list \<Rightarrow> (pyval \<times> pyval) list" where
  "cache_update cache new = fold (\<lambda>kv. AList.update (fst kv) (snd kv)) new cache"

text \<open>
  \<^verbatim>\<open>
  def delete_page(self, page_name, reason=None):
      params = {'action': 'delete', 'title': page_name, 'format': 'json'}
      if reason is not None: params['reason'] = reason
      if page_name not in self.delete_tokens:
          self.delete_tokens.update(self.get_tokens('delete', page_name))
      params['token'] = self.delete_tokens[page_name],
      r = self.session.post(self.api_url, data=params)
      if r.status_code != 200: raise MediaWikiAPIError(...)
      data = r.json()
      if 'error' in data:
          if data['error']['code'] == 'cantdelete':
              raise CanNotDelete(data['error']['info'])
          raise MediaWikiAPIError(data['error'])
      return None
  \<close>
  A method returns its result or exception, the object as the call leaves it, and the
  world.
\<close>

definition delete_params :: "string \<Rightarrow> string option \<Rightarrow> (string \<times> pyval) list" where
  "delete_params page_name reason =
     [(''action'', PStr ''delete''), (''title'', PStr page_name), (''format'', PStr ''json'')]
     @ (case reason of None \<Rightarrow> [] | Some r \<Rightarrow> [(''reason'', PStr r)])"

definition delete_result_1_19 :: "response \<Rightarrow> error + unit" where
  "delete_result_1_19 r =
     bind_err (check_status r) (\<lambda>_.
     bind_err (r_json r) (\<lambda>data.
     bind_err (py_in ''error'' data) (\<lambda>b.
       if b then
         bind_err (py_getitem data ''error'') (\<lambda>err.
         bind_err (py_getitem err ''code'') (\<lambda>code.
           if code = PStr ''cantdelete''
           then bind_err (py_getitem err ''info'') (\<lambda>info. Inl (CanNotDelete info))
           else Inl (MediaWikiAPIError (Payload err))))
       else Inr ())))"

definition delete_page_1_19 ::
  "'s server \<Rightarrow> api1_19 \<Rightarrow> string \<Rightarrow> string option \<Rightarrow> 's world \<Rightarrow>
   (error + unit) \<times> api1_19 \<times> 's world" where
  "delete_page_1_19 srv self page_name reason w =
     (case (if map_of (delete_tokens self) (PStr page_name) = None
            then (case get_tokens srv self ''delete'' page_name w of
                    (Inl e, w1) \<Rightarrow> (Inl e, w1)
                  | (Inr new, w1) \<Rightarrow>
                      (Inr (self\<lparr>delete_tokens := cache_update (delete_tokens self) new\<rparr>), w1))
            else (Inr self, w)) of
        (Inl e, w1) \<Rightarrow> (Inl e, self, w1)
      | (Inr self1, w1) \<Rightarrow>
          (case map_of (delete_tokens self1) (PStr page_name) of
             None \<Rightarrow> (Inl (KeyError page_name), self1, w1)
           | Some tok \<Rightarrow>
               (case send srv (Post_data (api_url self1)
                       (AList.update ''token'' (PTuple [tok]) (delete_params page_name reason))) w1 of
                  (r, w2) \<Rightarrow> (delete_result_1_19 r, self1, w2))))"

text \<open>
  \<^verbatim>\<open>
  def edit_page(self, page_name, text, summary=None):
      params = {'action': 'edit', 'title': page_name, 'text': text, 'format': 'json'}
      if summary is not None: params['summary'] = summary
      if page_name not in self.edit_tokens:
          self.edit_tokens.update(self.get_tokens('edit', page_name))
      params['token'] = self.edit_tokens[page_name],
      r = self.session.post(self.api_url, data=params)
      if r.status_code != 200: raise MediaWikiAPIError(...)
      data = r.json()
      if 'error' in data: raise MediaWikiAPIError(data['error'])
      return None
  \<close>
\<close>

definition edit_params :: "string \<Rightarrow> string \<Rightarrow> string option \<Rightarrow> (string \<times> pyval) list" where
  "edit_params page_name text summary =
     [(''action'', PStr ''edit''), (''title'', PStr page_name), (''text'', PStr text),
      (''format'', PStr ''json'')]
     @ (case summary of None \<Rightarrow> [] | Some s \<Rightarrow> [(''summary'', PStr s)])"

definition plain_result :: "response \<Rightarrow> error + unit" where
  "plain_result r = bind_err (checked_json r) (\<lambda>_. Inr ())"

definition edit_page_1_19 ::
  "'s server \<Rightarrow> api1_19 \<Rightarrow> string \<Rightarrow> string \<Rightarrow> string option \<Rightarrow> 's world \<Rightarrow>
   (error + unit) \<times> api1_19 \<times> 's world" where
  "edit_page_1_19 srv self page_name text summary w =
     (case (if map_of (edit_tokens self) (PStr page_name) = None
            then (case get_tokens srv self ''edit'' page_name w of
                    (Inl e, w1) \<Rightarrow> (Inl e, w1)
                  | (Inr new, w1) \<Rightarrow>
                      (Inr (self\<lparr>edit_tokens := cache_update (edit_tokens self) new\<rparr>), w1))
            else (Inr self, w)) of
        (Inl e, w1) \<Rightarrow> (Inl e, self, w1)
      | (Inr self1, w1) \<Rightarrow>
          (case map_of (edit_tokens self1) (PStr page_name) of
             None \<Rightarrow> (Inl (KeyError page_name), self1, w1)
           | Some tok \<Rightarrow>
               (case send srv (Post_data (api_url self1)
                       (AList.update ''token'' (PTuple [tok]) (edit_params page_name text summary))) w1 of
                  (r, w2) \<Rightarrow> (plain_result r, self1, w2))))"

subsection \<open>Class \<open>MediaWikiAPI1_31\<close>: one CSRF token\<close>

text \<open>
  \<^verbatim>\<open>
  def get_token(self, token_type):
      params = {'action': 'query', 'meta': 'tokens', 'type': token_type, 'format': 'json'}
      r = self.session.get(self.api_url, params=params)
      if r.status_code != 200: raise MediaWikiAPIError(...)
      data = r.json()
      # TODO: handle errors
      token = data['query']['tokens']['{}token'.format(token_type)]
      return token
  \<close>
\<close>

definition token_params :: "string \<Rightarrow> (string \<times> pyval) list" where
  "token_params token_type =
     [(''action'', PStr ''query''), (''meta'', PStr ''tokens''), (''type'', PStr token_type),
      (''format'', PStr ''json'')]"

definition get_token_result :: "string \<Rightarrow> response \<Rightarrow> error + pyval" where
  "get_token_result token_type r =
     bind_err (check_status r) (\<lambda>_.
     bind_err (r_json r) (\<lambda>data.
     bind_err (py_getitem data ''query'') (\<lambda>q.
     bind_err (py_getitem q ''tokens'') (\<lambda>ts.
     py_getitem ts (token_type @ ''token'')))))"

definition get_token ::
  "'s server \<Rightarrow> api1_31 \<Rightarrow> string \<Rightarrow> 's world \<Rightarrow> (error + pyval) \<times> 's world" where
  "get_token srv self token_type w =
     (case send srv (Get (api_url self) (token_params token_type)) w of
        (r, w1) \<Rightarrow> (get_token_result token_type r, w1))"

text \<open>
  \<^verbatim>\<open>
  def delete_page(self, page_name, reason=None):
      if self.csrf_token is None:
          self.csrf_token = self.get_token('csrf')
      params = {'action': 'delete', 'title': page_name, 'token': self.csrf_token,
                'format': 'json'}
      if reason is not None: params['reason'] = reason
      r = self.session.post(self.api_url, data=params)
      if r.status_code != 200: raise MediaWikiAPIError(...)
      data = r.json()
      if 'error' in data: raise MediaWikiAPIError(data['error'])
      return None
  \<close>
  \<open>edit_page\<close> is the same with the parameters of an edit.
\<close>

definition ensure_csrf ::
  "'s server \<Rightarrow> api1_31 \<Rightarrow> 's world \<Rightarrow> (error + api1_31) \<times> 's world" where
  "ensure_csrf srv self w =
     (if csrf_token self = PNone
      then (case get_token srv self ''csrf'' w of
              (Inl e, w1) \<Rightarrow> (Inl e, w1)
            | (Inr tok, w1) \<Rightarrow> (Inr (self\<lparr>csrf_token := tok\<rparr>), w1))
      else (Inr self, w))"

definition delete_params_1_31 :: "string \<Rightarrow> pyval \<Rightarrow> string option \<Rightarrow> (string \<times> pyval) list" where
  "delete_params_1_31 page_name token reason =
     [(''action'', PStr ''delete''), (''title'', PStr page_name), (''token'', token),
      (''format'', PStr ''json'')]
     @ (case reason of None \<Rightarrow> [] | Some r \<Rightarrow> [(''reason'', PStr r)])"

definition edit_params_1_31 ::
  "string \<Rightarrow> string \<Rightarrow> pyval \<Rightarrow> string option \<Rightarrow> (string \<times> pyval) list" where
  "edit_params_1_31 page_name text token summary =
     [(''action'', PStr ''edit''), (''title'', PStr page_name), (''text'', PStr text),
      (''token'', token), (''format'', PStr ''json'')]
     @ (case summary of None \<Rightarrow> [] | Some s \<Rightarrow> [(''summary'', PStr s)])"

definition delete_page_1_31 ::
  "'s server \<Rightarrow> api1_31 \<Rightarrow> string \<Rightarrow> string option \<Rightarrow> 's world \<Rightarrow>
   (error + unit) \<times> api1_31 \<times> 's world" where
  "delete_page_1_31 srv self page_name reason w =
     (case ensure_csrf srv self w of
        (Inl e, w1) \<Rightarrow> (Inl e, self, w1)
      | (Inr self1, w1) \<Rightarrow>
          (case send srv (Post_data (api_url self1)
                  (delete_params_1_31 page_name (csrf_token self1) reason)) w1 of
             (r, w2) \<Rightarrow> (plain_result r, self1, w2)))"

definition edit_page_1_31 ::
  "'s server \<Rightarrow> api1_31 \<Rightarrow> string \<Rightarrow> string \<Rightarrow> string option \<Rightarrow> 's world \<Rightarrow>
   (error + unit) \<times> api1_31 \<times> 's world" where
  "edit_page_1_31 srv self page_name text summary w =
     (case ensure_csrf srv self w of
        (Inl e, w1) \<Rightarrow> (Inl e, self, w1)
      | (Inr self1, w1) \<Rightarrow>
          (case send srv (Post_data (api_url self1)
                  (edit_params_1_31 page_name text (csrf_token self1) summary)) w1 of
             (r, w2) \<Rightarrow> (plain_result r, self1, w2)))"

section \<open>Login\<close>

text \<open>
  \<^verbatim>\<open>
  def api_login(self, username, password):           # MediaWikiAPI1_19
      params1 = {'action': 'login', 'format': 'json',
                 'lgname': username, 'lgpassword': password}
      r1 = self.session.post(self.api_url, data=params1)
      if r1.status_code != 200: raise MediaWikiAPIError(...)
      data1 = r1.json()
      if 'error' in data1: raise MediaWikiAPIError(data1['error'])
      if 'warning' in data1: raise MediaWikiAPIError(data1['warning'])
      if data1['login']['result'] == 'Success': return
      if data1['login']['result'] != 'NeedToken':
          raise MediaWikiAPIError('Login result is {}'.format(data1['login']['result']))
      params2 = {... as params1 ..., 'lgtoken': data1['login']['token']}
      r2 = self.session.post(self.api_url, data=params2)
      if r2.status_code != 200: raise MediaWikiAPIError(...)
      data2 = r2.json()
      if 'error' in data2: raise MediaWikiAPIError(data2['error'])
      if 'warning' in data2: raise MediaWikiAPIError(data2['warning'])
      if data2['login']['result'] != 'Success':
          raise MediaWikiAPIError('Login result is {}'.format(data2['login']['result']))
  \<close>
\<close>

definition login_params :: "string \<Rightarrow> string \<Rightarrow> (string \<times> pyval) list" where
  "login_params username password =
     [(''action'', PStr ''login''), (''format'', PStr ''json''),
      (''lgname'', PStr username), (''lgpassword'', PStr password)]"

definition login_data :: "response \<Rightarrow> error + pyval" where
  "login_data r =
     bind_err (checked_json r) (\<lambda>data.
     bind_err (raise_if ''warning'' data) (\<lambda>_. Inr data))"

definition login_result :: "pyval \<Rightarrow> error + pyval" where
  "login_result data = bind_err (py_getitem data ''login'') (\<lambda>l. py_getitem l ''result'')"

text \<open>
  The first exchange either ends the call (\<open>None\<close>) or gives the parameters of the
  second attempt. The source reads \<open>data1['login']['result']\<close> anew at each use; the
  reads have no effect, so the model reads once.
\<close>

definition first_attempt ::
  "string \<Rightarrow> string \<Rightarrow> response \<Rightarrow> error + (string \<times> pyval) list option" where
  "first_attempt username password r1 =
     bind_err (login_data r1) (\<lambda>data1.
     bind_err (login_result data1) (\<lambda>res1.
       if res1 = PStr ''Success'' then Inr None
       else if res1 \<noteq> PStr ''NeedToken'' then Inl (MediaWikiAPIError (Login_result_is res1))
       else bind_err (py_getitem data1 ''login'') (\<lambda>l.
            bind_err (py_getitem l ''token'') (\<lambda>tok.
              Inr (Some (login_params username password @ [(''lgtoken'', tok)]))))))"

definition second_attempt :: "response \<Rightarrow> error + unit" where
  "second_attempt r2 =
     bind_err (login_data r2) (\<lambda>data2.
     bind_err (login_result data2) (\<lambda>res2.
       if res2 \<noteq> PStr ''Success'' then Inl (MediaWikiAPIError (Login_result_is res2))
       else Inr ()))"

definition api_login_1_19 ::
  "'s server \<Rightarrow> api1_19 \<Rightarrow> string \<Rightarrow> string \<Rightarrow> 's world \<Rightarrow> (error + unit) \<times> 's world" where
  "api_login_1_19 srv self username password w =
     (case send srv (Post_data (api_url self) (login_params username password)) w of
        (r1, w1) \<Rightarrow>
          (case first_attempt username password r1 of
             Inl e \<Rightarrow> (Inl e, w1)
           | Inr None \<Rightarrow> (Inr (), w1)
           | Inr (Some params2) \<Rightarrow>
               (case send srv (Post_data (api_url self) params2) w1 of
                  (r2, w2) \<Rightarrow> (second_attempt r2, w2))))"

text \<open>
  \<^verbatim>\<open>
  def api_login(self, username, password):           # MediaWikiAPI1_31
      token = self.get_token('login')
      params = {'action': 'login', 'format': 'json',
                'lgname': username, 'lgpassword': password, 'lgtoken': token}
      r = self.session.post(self.api_url, data=params)
      if r.status_code != 200: raise MediaWikiAPIError(...)
      data = r.json()
      if 'error' in data: raise MediaWikiAPIError(data['error'])
  \<close>
\<close>

definition api_login_1_31 ::
  "'s server \<Rightarrow> api1_31 \<Rightarrow> string \<Rightarrow> string \<Rightarrow> 's world \<Rightarrow> (error + unit) \<times> 's world" where
  "api_login_1_31 srv self username password w =
     (case get_token srv self ''login'' w of
        (Inl e, w1) \<Rightarrow> (Inl e, w1)
      | (Inr token, w1) \<Rightarrow>
          (case send srv (Post_data (api_url self)
                  (login_params username password @ [(''lgtoken'', token)])) w1 of
             (r, w2) \<Rightarrow> (plain_result r, w2)))"

section \<open>Servers for concrete runs\<close>

text \<open>
  A server that answers from a list, whatever it is asked: its state is the list of
  answers still to give. Once the list is empty it answers with status 500.
\<close>

definition ok :: "pyval \<Rightarrow> response" where
  "ok data = \<lparr>status_code = 200, body = Some data\<rparr>"

definition failed :: "int \<Rightarrow> response" where
  "failed code = \<lparr>status_code = code, body = None\<rparr>"

definition replay :: "response list server" where
  "replay s rq = (case s of [] \<Rightarrow> (failed 500, []) | r # rs \<Rightarrow> (r, rs))"

definition start :: "'s \<Rightarrow> 's world" where
  "start s = \<lparr>srv_state = s, exchanges = []\<rparr>"

section \<open>Notions used by the properties\<close>

text \<open>The requests a call has added to the world, and the ones that carry a POST body.\<close>

definition new_requests :: "'s world \<Rightarrow> 's world \<Rightarrow> request list" where
  "new_requests w w' = drop (length (exchanges w)) (requests w')"

fun is_post_data :: "request \<Rightarrow> bool" where
  "is_post_data (Post_data url d) = True"
| "is_post_data rq = False"

text \<open>The \<open>token\<close> parameter of a POST body.\<close>

fun token_param :: "request \<Rightarrow> pyval option" where
  "token_param (Post_data url d) = map_of d ''token''"
| "token_param rq = None"

text \<open>
  A login response that the Legacy handshake reads to its end: status 200, a dictionary
  with neither \<open>error\<close> nor \<open>warning\<close>, and a \<open>login\<close> dictionary with a
  \<open>result\<close>. \<open>login_reply\<close> gives that result and the token beside it, if any.
\<close>

definition login_reply :: "response \<Rightarrow> (pyval \<times> pyval option) option" where
  "login_reply r =
     (if status_code r \<noteq> 200 then None
      else case body r of
        Some (PDict d) \<Rightarrow>
          (if map_of d ''error'' \<noteq> None \<or> map_of d ''warning'' \<noteq> None then None
           else case map_of d ''login'' of
             Some (PDict l) \<Rightarrow>
               (case map_of l ''result'' of
                  Some res \<Rightarrow> Some (res, map_of l ''token'')
                | None \<Rightarrow> None)
           | _ \<Rightarrow> None)
      | _ \<Rightarrow> None)"

definition login_answer :: "string \<Rightarrow> response" where
  "login_answer res = ok (PDict [(''login'', PDict [(''result'', PStr res)])])"

definition need_token :: "string \<Rightarrow> response" where
  "need_token tok =
     ok (PDict [(''login'', PDict [(''result'', PStr ''NeedToken''), (''token'', PStr tok)])])"

text \<open>
  A caller that makes edits and deletions one after the other on one object, whatever
  each of them returns or raises.
\<close>

datatype call = Edit_page string string "string option" | Delete_page string "string option"

fun call_1_31 ::
  "'s server \<Rightarrow> api1_31 \<Rightarrow> call \<Rightarrow> 's world \<Rightarrow> (error + unit) \<times> api1_31 \<times> 's world" where
  "call_1_31 srv self (Edit_page page_name text summary) w =
     edit_page_1_31 srv self page_name text summary w"
| "call_1_31 srv self (Delete_page page_name reason) w =
     delete_page_1_31 srv self page_name reason w"

fun run_1_31 :: "'s server \<Rightarrow> call list \<Rightarrow> api1_31 \<Rightarrow> 's world \<Rightarrow> api1_31 \<times> 's world" where
  "run_1_31 srv [] self w = (self, w)"
| "run_1_31 srv (c # cs) self w =
     (case call_1_31 srv self c w of (res, self', w') \<Rightarrow> run_1_31 srv cs self' w')"

fun call_1_19 ::
  "'s server \<Rightarrow> api1_19 \<Rightarrow> call \<Rightarrow> 's world \<Rightarrow> (error + unit) \<times> api1_19 \<times> 's world" where
  "call_1_19 srv self (Edit_page page_name text summary) w =
     edit_page_1_19 srv self page_name text summary w"
| "call_1_19 srv self (Delete_page page_name reason) w =
     delete_page_1_19 srv self page_name reason w"

fun run_1_19 :: "'s server \<Rightarrow> call list \<Rightarrow> api1_19 \<Rightarrow> 's world \<Rightarrow> api1_19 \<times> 's world" where
  "run_1_19 srv [] self w = (self, w)"
| "run_1_19 srv (c # cs) self w =
     (case call_1_19 srv self c w of (res, self', w') \<Rightarrow> run_1_19 srv cs self' w')"

text \<open>The requests that \<open>get_token('csrf')\<close> and \<open>get_tokens(token_type, title)\<close> send.\<close>

definition csrf_request :: "api1_31 \<Rightarrow> request" where
  "csrf_request self = Get (api_url self) (token_params ''csrf'')"

definition fetch :: "api1_19 \<Rightarrow> string \<Rightarrow> string \<Rightarrow> request" where
  "fetch self token_type title = Post_params (api_url self) (tokens_params token_type title)"

text \<open>
  Two more servers for concrete runs: one that gives the same answer to everything, and
  one that answers a Legacy token query with a token for the title asked and everything
  else with an empty dictionary.
\<close>

definition always :: "response \<Rightarrow> unit server" where
  "always r s rq = (r, s)"

definition csrf_answer :: response where
  "csrf_answer = ok (PDict [(''query'', PDict [(''tokens'', PDict [(''csrftoken'', PStr ''T'')])])])"

definition legacy_mock :: "unit server" where
  "legacy_mock s rq =
     (case rq of
        Post_params url p \<Rightarrow>
          (case (map_of p ''titles'', map_of p ''intoken'') of
             (Some t, Some (PStr k)) \<Rightarrow>
               (ok (PDict [(''query'', PDict [(''pages'', PDict
                  [(''1'', PDict [(''title'', t), (k @ ''token'', PStr ''T'')])])])]), s)
           | _ \<Rightarrow> (failed 400, s))
      | _ \<Rightarrow> (ok (PDict []), s))"

section \<open>Properties\<close>

lemmas response_defs = check_status_def r_json_def raise_if_def checked_json_def bind_err_def
  plain_result_def ok_def failed_def

lemmas replay_defs = send_def replay_def start_def

lemma py_getitem_raises: "py_getitem v k = Inl e \<Longrightarrow> e = TypeError \<or> e = KeyError k"
  by (cases v) (auto split: option.splits)

lemma py_in_raises: "py_in k v = Inl e \<Longrightarrow> e = TypeError"
  by (cases v) auto

subsection \<open>Errors of a deletion\<close>

text \<open>
  In class \<open>MediaWikiAPI1_19\<close> an error body with the code \<open>cantdelete\<close> raises
  \<open>CanNotDelete\<close> with the error's \<open>info\<close>, and any other code raises
  \<open>MediaWikiAPIError\<close> with the error object.
\<close>

lemma delete_result_1_19_cantdelete:
  assumes "status_code r = 200" and "body r = Some (PDict d)"
    and "map_of d ''error'' = Some (PDict err)"
    and "map_of err ''code'' = Some code" and "map_of err ''info'' = Some info"
  shows "delete_result_1_19 r =
     (if code = PStr ''cantdelete'' then Inl (CanNotDelete info)
      else Inl (MediaWikiAPIError (Payload (PDict err))))"
  using assms by (simp add: delete_result_1_19_def response_defs)

text \<open>Class \<open>MediaWikiAPI1_31\<close> has no such branch: its \<open>delete_page\<close> raises
  \<open>CanNotDelete\<close> on no input at all.\<close>

lemma plain_result_not_CanNotDelete: "plain_result r \<noteq> Inl (CanNotDelete info)"
  by (auto simp: response_defs split: sum.splits option.splits if_splits
      dest: py_getitem_raises py_in_raises)

lemma get_token_result_not_CanNotDelete: "get_token_result t r \<noteq> Inl (CanNotDelete info)"
  by (auto simp: get_token_result_def response_defs split: sum.splits option.splits if_splits
      dest: py_getitem_raises py_in_raises)

lemma delete_page_1_31_never_CanNotDelete:
  "fst (delete_page_1_31 srv self page_name reason w) \<noteq> Inl (CanNotDelete info)"
  using plain_result_not_CanNotDelete get_token_result_not_CanNotDelete
  by (auto simp: delete_page_1_31_def ensure_csrf_def get_token_def send_def
      split: prod.splits sum.splits if_splits)

text \<open>
  Claim C3 (every \<open>deletePage\<close> whose response carries an error raises
  \<open>DeletionDenied\<close> exactly when the code is \<open>cantdelete\<close>, on either client), at
  the input where class \<open>MediaWikiAPI1_31\<close> departs from it: the token fetch
  succeeds, the deletion is answered with the error code \<open>cantdelete\<close>, and
  \<open>delete_page\<close> raises the plain \<open>MediaWikiAPIError\<close> carrying the error object.
\<close>

theorem delete_page_1_31_cantdelete:
  "fst (delete_page_1_31 replay (init_1_31 ''w'') ''P'' None
     (start [ok (PDict [(''query'', PDict [(''tokens'', PDict [(''csrftoken'', PStr ''T'')])])]),
             ok (PDict [(''error'', PDict [(''code'', PStr ''cantdelete''),
                                           (''info'', PStr ''protected'')])])]))
   = Inl (MediaWikiAPIError (Payload (PDict [(''code'', PStr ''cantdelete''),
                                             (''info'', PStr ''protected'')])))"
  by (simp add: delete_page_1_31_def ensure_csrf_def get_token_def get_token_result_def
      token_params_def init_1_31_def replay_defs response_defs)

subsection \<open>Warnings during login\<close>

text \<open>
  In class \<open>MediaWikiAPI1_19\<close> a body with a \<open>warning\<close> key and no \<open>error\<close> key
  ends the login with \<open>MediaWikiAPIError\<close> carrying the warning.
\<close>

lemma login_data_warning:
  assumes "status_code r = 200" and "body r = Some (PDict d)"
    and "map_of d ''error'' = None" and "map_of d ''warning'' = Some v"
  shows "login_data r = Inl (MediaWikiAPIError (Payload v))"
  using assms by (simp add: login_data_def response_defs)

lemma api_login_1_19_warning:
  assumes "fst (srv (srv_state w) (Post_data (api_url self) (login_params username password))) = r"
    and "status_code r = 200" and "body r = Some (PDict d)"
    and "map_of d ''error'' = None" and "map_of d ''warning'' = Some v"
  shows "fst (api_login_1_19 srv self username password w) = Inl (MediaWikiAPIError (Payload v))"
  using assms login_data_warning [of r d v]
  by (auto simp: api_login_1_19_def first_attempt_def send_def bind_err_def split: prod.splits)

text \<open>
  Claim C4 (on either client a login response with a warning and no error is raised as
  an API error instead of being accepted), at the input where class
  \<open>MediaWikiAPI1_31\<close> departs from it: the login token is fetched, the login request
  is answered with a warning and the result \<open>Failed\<close>, and \<open>api_login\<close> returns
  normally.
\<close>

theorem api_login_1_31_warning:
  "fst (api_login_1_31 replay (init_1_31 ''w'') ''user'' ''secret''
     (start [ok (PDict [(''query'', PDict [(''tokens'', PDict [(''logintoken'', PStr ''L'')])])]),
             ok (PDict [(''warning'', PDict [(''login'', PStr ''deprecated'')]),
                        (''login'', PDict [(''result'', PStr ''Failed'')])])]))
   = Inr ()"
  by (simp add: api_login_1_31_def get_token_def get_token_result_def
      token_params_def init_1_31_def replay_defs response_defs)

subsection \<open>Errors of a token fetch\<close>

text \<open>
  In class \<open>MediaWikiAPI1_19\<close> an error body in answer to the token query is raised
  as \<open>MediaWikiAPIError\<close> by \<open>get_tokens\<close>, and leaves \<open>edit_page\<close> and
  \<open>delete_page\<close> as such.
\<close>

lemma get_tokens_result_error:
  assumes "status_code r = 200" and "body r = Some (PDict d)"
    and "map_of d ''error'' = Some v"
  shows "get_tokens_result token_type r = Inl (MediaWikiAPIError (Payload v))"
  using assms by (simp add: get_tokens_result_def response_defs)

lemma edit_page_1_19_token_error:
  assumes "map_of (edit_tokens self) (PStr page_name) = None"
    and "fst (srv (srv_state w) (Post_params (api_url self) (tokens_params ''edit'' page_name))) = r"
    and "status_code r = 200" and "body r = Some (PDict d)" and "map_of d ''error'' = Some v"
  shows "fst (edit_page_1_19 srv self page_name text summary w) = Inl (MediaWikiAPIError (Payload v))"
  using assms get_tokens_result_error [of r d v "''edit''"]
  by (auto simp: edit_page_1_19_def get_tokens_def send_def split: prod.splits)

lemma delete_page_1_19_token_error:
  assumes "map_of (delete_tokens self) (PStr page_name) = None"
    and "fst (srv (srv_state w) (Post_params (api_url self) (tokens_params ''delete'' page_name))) = r"
    and "status_code r = 200" and "body r = Some (PDict d)" and "map_of d ''error'' = Some v"
  shows "fst (delete_page_1_19 srv self page_name reason w) = Inl (MediaWikiAPIError (Payload v))"
  using assms get_tokens_result_error [of r d v "''delete''"]
  by (auto simp: delete_page_1_19_def get_tokens_def send_def split: prod.splits)

text \<open>
  Claim C5 (under both token policies an error reported in answer to the token fetch
  leaves the mutating call as an API error and as no other failure), at the input where
  class \<open>MediaWikiAPI1_31\<close> departs from it: \<open>get_token\<close> does not look for an
  \<open>error\<close> key (the source marks the place \<open>TODO: handle errors\<close>), so the error
  body answering the first \<open>edit_page\<close> of a session raises \<open>KeyError\<close> for the
  missing \<open>query\<close> key.
\<close>

theorem edit_page_1_31_token_error:
  "fst (edit_page_1_31 replay (init_1_31 ''w'') ''P'' ''text'' None
     (start [ok (PDict [(''error'', PDict [(''code'', PStr ''readapidenied''),
                                           (''info'', PStr ''denied'')])])]))
   = Inl (KeyError ''query'')"
  by (simp add: edit_page_1_31_def ensure_csrf_def get_token_def get_token_result_def
      token_params_def init_1_31_def replay_defs response_defs)

subsection \<open>The Legacy login handshake\<close>

lemma send_log: "send srv rq w = (r, w1) \<Longrightarrow> exchanges w1 = exchanges w @ [(rq, r)]"
  by (auto simp: send_def split: prod.splits)

lemma login_reply_data:
  assumes "login_reply r = Some (res, tok)"
  obtains d l where "body r = Some (PDict d)" "login_data r = Inr (PDict d)"
    "map_of d ''login'' = Some (PDict l)" "map_of l ''result'' = Some res" "map_of l ''token'' = tok"
  using assms
  by (auto simp: login_reply_def login_data_def response_defs
      split: if_splits option.splits pyval.splits)

lemma first_attempt_reply:
  assumes "login_reply r = Some (res, tok)"
  shows "first_attempt username password r =
     (if res = PStr ''Success'' then Inr None
      else if res \<noteq> PStr ''NeedToken'' then Inl (MediaWikiAPIError (Login_result_is res))
      else case tok of None \<Rightarrow> Inl (KeyError ''token'')
           | Some t \<Rightarrow> Inr (Some (login_params username password @ [(''lgtoken'', t)])))"
proof -
  from assms obtain d l where "login_data r = Inr (PDict d)"
    "map_of d ''login'' = Some (PDict l)" "map_of l ''result'' = Some res" "map_of l ''token'' = tok"
    by (rule login_reply_data)
  then show ?thesis
    by (simp add: first_attempt_def login_result_def bind_err_def split: option.splits)
qed

lemma second_attempt_reply:
  assumes "login_reply r = Some (res, tok)"
  shows "second_attempt r =
     (if res = PStr ''Success'' then Inr () else Inl (MediaWikiAPIError (Login_result_is res)))"
proof -
  from assms obtain d l where "login_data r = Inr (PDict d)"
    "map_of d ''login'' = Some (PDict l)" "map_of l ''result'' = Some res"
    by (rule login_reply_data)
  then show ?thesis
    by (simp add: second_attempt_def login_result_def bind_err_def)
qed

lemma api_login_1_19_at_most_two:
  "length (exchanges (snd (api_login_1_19 srv self username password w))) \<le> length (exchanges w) + 2"
  by (auto simp: api_login_1_19_def split: prod.splits sum.splits option.splits dest!: send_log)

text \<open>
  Claim C6, for class \<open>MediaWikiAPI1_19\<close>. The first request sends the credentials.
  If its answer reports \<open>Success\<close>, the login is complete and nothing more is sent.
  If it reports anything but \<open>Success\<close> and \<open>NeedToken\<close>, the login raises
  \<open>MediaWikiAPIError('Login result is <result>')\<close> (the class the source has for the
  spec's authentication error) and nothing more is sent. If it reports \<open>NeedToken\<close>
  with a token, exactly one second request follows, with the credentials and that token;
  its answer completes the login on \<open>Success\<close> and raises the same error with the
  second result otherwise. No call makes more than two requests.
\<close>

theorem legacy_login_handshake:
  assumes "srv (srv_state w) (Post_data (api_url self) (login_params username password)) = (r1, s1)"
    and "login_reply r1 = Some (res1, tok1)"
  shows "(res1 = PStr ''Success'' \<longrightarrow>
            api_login_1_19 srv self username password w =
              (Inr (), \<lparr>srv_state = s1, exchanges = exchanges w @
                 [(Post_data (api_url self) (login_params username password), r1)]\<rparr>))
       \<and> (res1 \<noteq> PStr ''Success'' \<and> res1 \<noteq> PStr ''NeedToken'' \<longrightarrow>
            api_login_1_19 srv self username password w =
              (Inl (MediaWikiAPIError (Login_result_is res1)),
               \<lparr>srv_state = s1, exchanges = exchanges w @
                 [(Post_data (api_url self) (login_params username password), r1)]\<rparr>))
       \<and> (res1 = PStr ''NeedToken'' \<and> tok1 = Some tok
            \<and> srv s1 (Post_data (api_url self)
                  (login_params username password @ [(''lgtoken'', tok)])) = (r2, s2)
            \<and> login_reply r2 = Some (res2, tok2) \<longrightarrow>
            api_login_1_19 srv self username password w =
              (if res2 = PStr ''Success'' then Inr ()
               else Inl (MediaWikiAPIError (Login_result_is res2)),
               \<lparr>srv_state = s2, exchanges = exchanges w @
                 [(Post_data (api_url self) (login_params username password), r1),
                  (Post_data (api_url self)
                     (login_params username password @ [(''lgtoken'', tok)]), r2)]\<rparr>))
       \<and> length (exchanges (snd (api_login_1_19 srv self username password w)))
            \<le> length (exchanges w) + 2"
proof (intro conjI impI)
  note fa = first_attempt_reply [OF assms(2), of username password]
  show "api_login_1_19 srv self username password w =
      (Inr (), \<lparr>srv_state = s1, exchanges = exchanges w @
         [(Post_data (api_url self) (login_params username password), r1)]\<rparr>)"
    if "res1 = PStr ''Success''"
    using that assms(1) fa by (simp add: api_login_1_19_def send_def)
  show "api_login_1_19 srv self username password w =
      (Inl (MediaWikiAPIError (Login_result_is res1)),
       \<lparr>srv_state = s1, exchanges = exchanges w @
         [(Post_data (api_url self) (login_params username password), r1)]\<rparr>)"
    if "res1 \<noteq> PStr ''Success'' \<and> res1 \<noteq> PStr ''NeedToken''"
    using that assms(1) fa by (simp add: api_login_1_19_def send_def)
  show "api_login_1_19 srv self username password w =
      (if res2 = PStr ''Success'' then Inr ()
       else Inl (MediaWikiAPIError (Login_result_is res2)),
       \<lparr>srv_state = s2, exchanges = exchanges w @
         [(Post_data (api_url self) (login_params username password), r1),
          (Post_data (api_url self)
             (login_params username password @ [(''lgtoken'', tok)]), r2)]\<rparr>)"
    if "res1 = PStr ''NeedToken'' \<and> tok1 = Some tok
        \<and> srv s1 (Post_data (api_url self)
              (login_params username password @ [(''lgtoken'', tok)])) = (r2, s2)
        \<and> login_reply r2 = Some (res2, tok2)"
    using that assms(1) fa second_attempt_reply [of r2 res2 tok2]
    by (simp add: api_login_1_19_def send_def)
  show "length (exchanges (snd (api_login_1_19 srv self username password w)))
            \<le> length (exchanges w) + 2"
    by (rule api_login_1_19_at_most_two)
qed

lemma login_reply_answer: "login_reply (login_answer res) = Some (PStr res, None)"
  by (simp add: login_reply_def login_answer_def ok_def)

lemma login_reply_need_token: "login_reply (need_token t) = Some (PStr ''NeedToken'', Some (PStr t))"
  by (simp add: login_reply_def need_token_def ok_def)

theorem legacy_login_handshake_witness:
  "api_login_1_19 replay (init_1_19 ''w'') ''u'' ''p'' (start [login_answer ''Success'']) =
     (Inr (), \<lparr>srv_state = [], exchanges =
        [(Post_data ''w/api.php'' (login_params ''u'' ''p''), login_answer ''Success'')]\<rparr>)
   \<and> api_login_1_19 replay (init_1_19 ''w'') ''u'' ''p'' (start [login_answer ''WrongPass'']) =
     (Inl (MediaWikiAPIError (Login_result_is (PStr ''WrongPass''))), \<lparr>srv_state = [], exchanges =
        [(Post_data ''w/api.php'' (login_params ''u'' ''p''), login_answer ''WrongPass'')]\<rparr>)
   \<and> api_login_1_19 replay (init_1_19 ''w'') ''u'' ''p''
       (start [need_token ''T'', login_answer ''Success'']) =
     (Inr (), \<lparr>srv_state = [], exchanges =
        [(Post_data ''w/api.php'' (login_params ''u'' ''p''), need_token ''T''),
         (Post_data ''w/api.php'' (login_params ''u'' ''p'' @ [(''lgtoken'', PStr ''T'')]),
          login_answer ''Success'')]\<rparr>)
   \<and> api_login_1_19 replay (init_1_19 ''w'') ''u'' ''p''
       (start [need_token ''T'', login_answer ''NeedToken'', login_answer ''Success'']) =
     (Inl (MediaWikiAPIError (Login_result_is (PStr ''NeedToken''))),
      \<lparr>srv_state = [login_answer ''Success''], exchanges =
        [(Post_data ''w/api.php'' (login_params ''u'' ''p''), need_token ''T''),
         (Post_data ''w/api.php'' (login_params ''u'' ''p'' @ [(''lgtoken'', PStr ''T'')]),
          login_answer ''NeedToken'')]\<rparr>)"
proof (intro conjI)
  let ?self = "init_1_19 ''w''"
  have url: "api_url ?self = ''w/api.php''" by (simp add: init_1_19_def)
  show "api_login_1_19 replay ?self ''u'' ''p'' (start [login_answer ''Success'']) =
     (Inr (), \<lparr>srv_state = [], exchanges =
        [(Post_data ''w/api.php'' (login_params ''u'' ''p''), login_answer ''Success'')]\<rparr>)"
    using legacy_login_handshake [of replay "start [login_answer ''Success'']" ?self "''u''" "''p''"
        "login_answer ''Success''" "[]" "PStr ''Success''" None]
    by (simp add: url replay_defs login_reply_answer)
  show "api_login_1_19 replay ?self ''u'' ''p'' (start [login_answer ''WrongPass'']) =
     (Inl (MediaWikiAPIError (Login_result_is (PStr ''WrongPass''))), \<lparr>srv_state = [], exchanges =
        [(Post_data ''w/api.php'' (login_params ''u'' ''p''), login_answer ''WrongPass'')]\<rparr>)"
    using legacy_login_handshake [of replay "start [login_answer ''WrongPass'']" ?self "''u''" "''p''"
        "login_answer ''WrongPass''" "[]" "PStr ''WrongPass''" None]
    by (simp add: url replay_defs login_reply_answer)
  show "api_login_1_19 replay ?self ''u'' ''p''
       (start [need_token ''T'', login_answer ''Success'']) =
     (Inr (), \<lparr>srv_state = [], exchanges =
        [(Post_data ''w/api.php'' (login_params ''u'' ''p''), need_token ''T''),
         (Post_data ''w/api.php'' (login_params ''u'' ''p'' @ [(''lgtoken'', PStr ''T'')]),
          login_answer ''Success'')]\<rparr>)"
    using legacy_login_handshake [of replay "start [need_token ''T'', login_answer ''Success'']"
        ?self "''u''" "''p''" "need_token ''T''" "[login_answer ''Success'']"
        "PStr ''NeedToken''" "Some (PStr ''T'')" "PStr ''T''" "login_answer ''Success''" "[]"
        "PStr ''Success''" None]
    by (simp add: url replay_defs login_reply_answer login_reply_need_token)
  show "api_login_1_19 replay ?self ''u'' ''p''
       (start [need_token ''T'', login_answer ''NeedToken'', login_answer ''Success'']) =
     (Inl (MediaWikiAPIError (Login_result_is (PStr ''NeedToken''))),
      \<lparr>srv_state = [login_answer ''Success''], exchanges =
        [(Post_data ''w/api.php'' (login_params ''u'' ''p''), need_token ''T''),
         (Post_data ''w/api.php'' (login_params ''u'' ''p'' @ [(''lgtoken'', PStr ''T'')]),
          login_answer ''NeedToken'')]\<rparr>)"
    using legacy_login_handshake [of replay
        "start [need_token ''T'', login_answer ''NeedToken'', login_answer ''Success'']"
        ?self "''u''" "''p''" "need_token ''T''" "[login_answer ''NeedToken'', login_answer ''Success'']"
        "PStr ''NeedToken''" "Some (PStr ''T'')" "PStr ''T''" "login_answer ''NeedToken''"
        "[login_answer ''Success'']" "PStr ''NeedToken''" None]
    by (simp add: url replay_defs login_reply_answer login_reply_need_token)
qed

subsection \<open>A failed token fetch on the Modern client\<close>

text \<open>
  Claim C10, for class \<open>MediaWikiAPI1_31\<close>. When no token is cached and the token
  fetch raises \<open>e\<close>, then \<open>edit_page\<close> and \<open>delete_page\<close> raise \<open>e\<close>, the
  object is as before (its token still unset), and the token request is the only request
  the call has made: no edit or delete is posted.
\<close>

theorem modern_token_failure:
  assumes "csrf_token self = PNone"
    and "srv (srv_state w) (Get (api_url self) (token_params ''csrf'')) = (r, s')"
    and "get_token_result ''csrf'' r = Inl e"
  shows "edit_page_1_31 srv self page_name text summary w =
           (Inl e, self, \<lparr>srv_state = s',
              exchanges = exchanges w @ [(Get (api_url self) (token_params ''csrf''), r)]\<rparr>)
       \<and> delete_page_1_31 srv self page_name reason w =
           (Inl e, self, \<lparr>srv_state = s',
              exchanges = exchanges w @ [(Get (api_url self) (token_params ''csrf''), r)]\<rparr>)"
  using assms
  by (simp add: edit_page_1_31_def delete_page_1_31_def ensure_csrf_def get_token_def send_def)

theorem modern_token_failure_witness:
  "edit_page_1_31 replay (init_1_31 ''w'') ''P'' ''text'' None (start [failed 503]) =
     (Inl (MediaWikiAPIError (Status_code_is 503)), init_1_31 ''w'',
      \<lparr>srv_state = [], exchanges = [(Get ''w/api.php'' (token_params ''csrf''), failed 503)]\<rparr>)
   \<and> delete_page_1_31 replay (init_1_31 ''w'') ''P'' None (start [failed 503]) =
     (Inl (MediaWikiAPIError (Status_code_is 503)), init_1_31 ''w'',
      \<lparr>srv_state = [], exchanges = [(Get ''w/api.php'' (token_params ''csrf''), failed 503)]\<rparr>)
   \<and> csrf_token (init_1_31 ''w'') = PNone"
proof -
  have h1: "csrf_token (init_1_31 ''w'') = PNone" by (simp add: init_1_31_def)
  have h2: "replay (srv_state (start [failed 503]))
      (Get (api_url (init_1_31 ''w'')) (token_params ''csrf'')) = (failed 503, [])"
    by (simp add: replay_defs)
  have h3: "get_token_result ''csrf'' (failed 503) = Inl (MediaWikiAPIError (Status_code_is 503))"
    by (simp add: get_token_result_def response_defs)
  show ?thesis
    using modern_token_failure [of "init_1_31 ''w''" replay "start [failed 503]" "failed 503" "[]"
        "MediaWikiAPIError (Status_code_is 503)" "''P''" "''text''" None None] h1 h2 h3
    by (simp add: init_1_31_def start_def)
qed

subsection \<open>The token parameter of a Legacy mutation\<close>

lemma update_fresh: "map_of d k = None \<Longrightarrow> AList.update k v d = d @ [(k, v)]"
  by (induction d) (auto split: if_splits)

lemma edit_params_token: "map_of (edit_params p t s) ''token'' = None"
  by (cases s) (simp_all add: edit_params_def)

lemma delete_params_token: "map_of (delete_params p r) ''token'' = None"
  by (cases r) (simp_all add: delete_params_def)

lemma tuple_not_token: "PTuple [v] \<noteq> v"
proof
  assume "PTuple [v] = v"
  then have "size (PTuple [v]) = size v" by simp
  then show False by simp
qed

lemma edit_page_1_19_posts:
  "case map_of (edit_tokens (fst (snd (edit_page_1_19 srv self page_name text summary w))))
          (PStr page_name) of
     None \<Rightarrow> filter is_post_data
       (new_requests w (snd (snd (edit_page_1_19 srv self page_name text summary w)))) = []
   | Some tok \<Rightarrow> filter is_post_data
       (new_requests w (snd (snd (edit_page_1_19 srv self page_name text summary w)))) =
       [Post_data (api_url self)
          (edit_params page_name text summary @ [(''token'', PTuple [tok])])]"
  by (auto simp: edit_page_1_19_def get_tokens_def update_fresh edit_params_token
      new_requests_def requests_def
      split: prod.splits sum.splits option.splits dest!: send_log)

lemma delete_page_1_19_posts:
  "case map_of (delete_tokens (fst (snd (delete_page_1_19 srv self page_name reason w))))
          (PStr page_name) of
     None \<Rightarrow> filter is_post_data
       (new_requests w (snd (snd (delete_page_1_19 srv self page_name reason w)))) = []
   | Some tok \<Rightarrow> filter is_post_data
       (new_requests w (snd (snd (delete_page_1_19 srv self page_name reason w)))) =
       [Post_data (api_url self)
          (delete_params page_name reason @ [(''token'', PTuple [tok])])]"
  by (auto simp: delete_page_1_19_def get_tokens_def update_fresh delete_params_token
      new_requests_def requests_def
      split: prod.splits sum.splits option.splits dest!: send_log)

text \<open>
  Claim C9, for class \<open>MediaWikiAPI1_19\<close>. A call of \<open>edit_page\<close> or
  \<open>delete_page\<close> posts at most one body. When the call leaves a token for the title in
  its cache, it has posted exactly one, and the \<open>token\<close> parameter of that body is the
  one-element tuple around the cached token, not the token; when it leaves none, it has
  posted nothing.
\<close>

theorem legacy_token_wrapped:
  "(case map_of (edit_tokens (fst (snd (edit_page_1_19 srv self page_name text summary w))))
           (PStr page_name) of
      None \<Rightarrow> filter is_post_data
        (new_requests w (snd (snd (edit_page_1_19 srv self page_name text summary w)))) = []
    | Some tok \<Rightarrow> filter is_post_data
        (new_requests w (snd (snd (edit_page_1_19 srv self page_name text summary w)))) =
        [Post_data (api_url self)
           (edit_params page_name text summary @ [(''token'', PTuple [tok])])])
 \<and> (case map_of (delete_tokens (fst (snd (delete_page_1_19 srv self page_name reason w))))
           (PStr page_name) of
      None \<Rightarrow> filter is_post_data
        (new_requests w (snd (snd (delete_page_1_19 srv self page_name reason w)))) = []
    | Some tok \<Rightarrow> filter is_post_data
        (new_requests w (snd (snd (delete_page_1_19 srv self page_name reason w)))) =
        [Post_data (api_url self)
           (delete_params page_name reason @ [(''token'', PTuple [tok])])])"
  using edit_page_1_19_posts delete_page_1_19_posts by (rule conjI)

subsection \<open>One CSRF token for a Modern session\<close>

lemma delete_params_1_31_token: "map_of (delete_params_1_31 p tok r) ''token'' = Some tok"
  by (simp add: delete_params_1_31_def)

lemma edit_params_1_31_token: "map_of (edit_params_1_31 p t tok s) ''token'' = Some tok"
  by (simp add: edit_params_1_31_def)

lemma call_1_31_cached:
  assumes "csrf_token self \<noteq> PNone" and "call_1_31 srv self c w = (res, self', w')"
  shows "self' = self \<and> (\<exists>rq r. token_param rq = Some (csrf_token self)
            \<and> exchanges w' = exchanges w @ [(rq, r)])"
  using assms
  by (cases c) (auto simp: edit_page_1_31_def delete_page_1_31_def ensure_csrf_def
      delete_params_1_31_token edit_params_1_31_token
      split: prod.splits dest!: send_log)

lemma run_1_31_cached:
  assumes "csrf_token self \<noteq> PNone" and "run_1_31 srv cs self w = (self', w')"
  shows "self' = self \<and> (\<exists>xs. exchanges w' = exchanges w @ xs
            \<and> map (\<lambda>x. token_param (fst x)) xs = replicate (length cs) (Some (csrf_token self)))"
  using assms
proof (induction cs arbitrary: w)
  case Nil
  then show ?case by simp
next
  case (Cons c cs)
  obtain res self1 w1 where c: "call_1_31 srv self c w = (res, self1, w1)"
    by (cases "call_1_31 srv self c w") auto
  from call_1_31_cached [OF Cons.prems(1) c] obtain rq r
    where s: "self1 = self" and p: "token_param rq = Some (csrf_token self)"
      and e: "exchanges w1 = exchanges w @ [(rq, r)]"
    by blast
  from Cons.prems(2) c s have "run_1_31 srv cs self w1 = (self', w')" by simp
  from Cons.IH [OF Cons.prems(1) this] obtain xs
    where "self' = self" "exchanges w' = exchanges w1 @ xs"
      "map (\<lambda>x. token_param (fst x)) xs = replicate (length cs) (Some (csrf_token self))"
    by blast
  with e p have "self' = self \<and> exchanges w' = exchanges w @ ((rq, r) # xs)
      \<and> map (\<lambda>x. token_param (fst x)) ((rq, r) # xs)
          = replicate (length (c # cs)) (Some (csrf_token self))"
    by simp
  then show ?case by blast
qed

lemma call_1_31_first:
  assumes "csrf_token self = PNone"
    and "\<forall>s. \<exists>tok. tok \<noteq> PNone \<and> get_token_result ''csrf'' (fst (srv s (csrf_request self))) = Inr tok"
    and "call_1_31 srv self c w = (res, self', w')"
  shows "csrf_token self' \<noteq> PNone
       \<and> (\<exists>r rq r'. token_param rq = Some (csrf_token self')
             \<and> exchanges w' = exchanges w @ [(csrf_request self, r), (rq, r')])"
proof -
  obtain r w1 where g: "send srv (csrf_request self) w = (r, w1)"
    by (cases "send srv (csrf_request self) w") auto
  then have r: "r = fst (srv (srv_state w) (csrf_request self))"
    by (auto simp: send_def split: prod.splits)
  with assms(2) obtain tok where tok: "tok \<noteq> PNone" "get_token_result ''csrf'' r = Inr tok"
    by blast
  from g have e1: "exchanges w1 = exchanges w @ [(csrf_request self, r)]" by (rule send_log)
  from assms(1) g tok have en: "ensure_csrf srv self w = (Inr (self\<lparr>csrf_token := tok\<rparr>), w1)"
    by (simp add: ensure_csrf_def get_token_def csrf_request_def)
  show ?thesis
    using assms(3) en e1 tok(1)
    by (cases c) (auto simp: edit_page_1_31_def delete_page_1_31_def
        delete_params_1_31_token edit_params_1_31_token
        split: prod.splits dest!: send_log)
qed

lemma token_param_post: "token_param rq = Some tok \<Longrightarrow> is_post_data rq"
  by (cases rq) auto

lemma no_post_among: "map token_param rqs = replicate n (Some tok) \<Longrightarrow>
    filter (\<lambda>rq. \<not> is_post_data rq) rqs = []"
proof (induction rqs arbitrary: n)
  case Nil
  then show ?case by simp
next
  case (Cons rq rqs)
  then obtain m where "n = Suc m" "token_param rq = Some tok"
    "map token_param rqs = replicate m (Some tok)"
    by (cases n) auto
  with Cons.IH [of m] show ?case by (simp add: token_param_post)
qed

text \<open>
  Claim C7, for class \<open>MediaWikiAPI1_31\<close>. Let the server answer every CSRF token
  query with a token. Then for every non-empty sequence of \<open>edit_page\<close> and
  \<open>delete_page\<close> calls on a new object, the token query is the first request of the
  session and the only request that is not the POST of an edit or a deletion; every call
  posts once, and every POST carries the token that the object holds at the end: one
  token fetch in total, whatever the first call is and whatever the mutations are
  answered.
\<close>

theorem modern_token_reuse:
  assumes "\<forall>s. \<exists>tok. tok \<noteq> PNone \<and>
             get_token_result ''csrf'' (fst (srv s (csrf_request (init_1_31 url)))) = Inr tok"
    and "calls \<noteq> []"
  shows "filter (\<lambda>rq. \<not> is_post_data rq) (requests (snd (run_1_31 srv calls (init_1_31 url) (start s))))
           = [csrf_request (init_1_31 url)]
       \<and> hd (requests (snd (run_1_31 srv calls (init_1_31 url) (start s)))) = csrf_request (init_1_31 url)
       \<and> map token_param (tl (requests (snd (run_1_31 srv calls (init_1_31 url) (start s)))))
           = replicate (length calls)
               (Some (csrf_token (fst (run_1_31 srv calls (init_1_31 url) (start s)))))
       \<and> csrf_token (fst (run_1_31 srv calls (init_1_31 url) (start s))) \<noteq> PNone"
proof -
  let ?self = "init_1_31 url"
  from assms(2) obtain c cs where calls: "calls = c # cs" by (cases calls) auto
  obtain res self1 w1 where c: "call_1_31 srv ?self c (start s) = (res, self1, w1)"
    by (cases "call_1_31 srv ?self c (start s)") auto
  have none: "csrf_token ?self = PNone" by (simp add: init_1_31_def)
  from call_1_31_first [OF none assms(1) c] obtain r rq r'
    where t: "csrf_token self1 \<noteq> PNone" and p: "token_param rq = Some (csrf_token self1)"
      and e: "exchanges w1 = exchanges (start s) @ [(csrf_request ?self, r), (rq, r')]"
    by blast
  obtain self' w' where run: "run_1_31 srv cs self1 w1 = (self', w')"
    by (cases "run_1_31 srv cs self1 w1") auto
  from run_1_31_cached [OF t run] obtain xs
    where same: "self' = self1" and xs: "exchanges w' = exchanges w1 @ xs"
      "map (\<lambda>x. token_param (fst x)) xs = replicate (length cs) (Some (csrf_token self1))"
    by blast
  have all: "run_1_31 srv calls ?self (start s) = (self1, w')"
    using calls c run same by simp
  have np: "\<not> is_post_data (csrf_request ?self)" by (simp add: csrf_request_def)
  have m: "map token_param (map fst xs) = replicate (length cs) (Some (csrf_token self1))"
    using xs(2) by (simp add: comp_def)
  then have f: "filter (\<lambda>rq. \<not> is_post_data rq) (map fst xs) = []"
    by (rule no_post_among)
  have "requests w' = csrf_request ?self # rq # map fst xs"
    using xs(1) e by (simp add: requests_def start_def)
  with p np f m t calls all show ?thesis by (simp add: token_param_post)
qed

theorem modern_token_reuse_witness:
  "requests (snd (run_1_31 (always csrf_answer) [Edit_page ''A'' ''x'' None, Edit_page ''B'' ''y'' None]
      (init_1_31 ''w'') (start ())))
   = [Get ''w/api.php'' (token_params ''csrf''),
      Post_data ''w/api.php'' (edit_params_1_31 ''A'' ''x'' (PStr ''T'') None),
      Post_data ''w/api.php'' (edit_params_1_31 ''B'' ''y'' (PStr ''T'') None)]
   \<and> [Edit_page ''A'' ''x'' None, Edit_page ''B'' ''y'' None] \<noteq> []"
proof -
  have h: "\<forall>s. \<exists>tok. tok \<noteq> PNone \<and>
      get_token_result ''csrf'' (fst (always csrf_answer s (csrf_request (init_1_31 ''w'')))) = Inr tok"
    by (simp add: always_def csrf_answer_def get_token_result_def response_defs)
  have run: "requests (snd (run_1_31 (always csrf_answer) [Edit_page ''A'' ''x'' None, Edit_page ''B'' ''y'' None]
      (init_1_31 ''w'') (start ())))
   = [Get ''w/api.php'' (token_params ''csrf''),
      Post_data ''w/api.php'' (edit_params_1_31 ''A'' ''x'' (PStr ''T'') None),
      Post_data ''w/api.php'' (edit_params_1_31 ''B'' ''y'' (PStr ''T'') None)]"
    by (simp add: edit_page_1_31_def ensure_csrf_def get_token_def get_token_result_def
        init_1_31_def always_def csrf_answer_def send_def start_def requests_def response_defs)
  show ?thesis
    using modern_token_reuse [of "always csrf_answer" "''w''"
        "[Edit_page ''A'' ''x'' None, Edit_page ''B'' ''y'' None]" "()"] h run
    by simp
qed


subsection \<open>One token per title for a Legacy session\<close>

lemma cache_update_single: "cache_update cache [(k, v)] = AList.update k v cache"
  by (simp add: cache_update_def)

lemma edit_page_1_19_uncached:
  assumes "map_of (edit_tokens self) (PStr p) = None"
    and "\<forall>s. \<exists>tok. get_tokens_result ''edit'' (fst (srv s (fetch self ''edit'' p))) = Inr [(PStr p, tok)]"
    and "edit_page_1_19 srv self p t sm w = (res, self', w')"
  shows "\<exists>tok r rq r'. self' = self\<lparr>edit_tokens := AList.update (PStr p) tok (edit_tokens self)\<rparr>
       \<and> is_post_data rq \<and> exchanges w' = exchanges w @ [(fetch self ''edit'' p, r), (rq, r')]"
proof -
  obtain r w1 where g: "send srv (fetch self ''edit'' p) w = (r, w1)"
    by (cases "send srv (fetch self ''edit'' p) w") auto
  then have "r = fst (srv (srv_state w) (fetch self ''edit'' p))"
    by (auto simp: send_def split: prod.splits)
  with assms(2) obtain tok where tok: "get_tokens_result ''edit'' r = Inr [(PStr p, tok)]"
    by blast
  from g have e1: "exchanges w1 = exchanges w @ [(fetch self ''edit'' p, r)]" by (rule send_log)
  show ?thesis
    using assms(1,3) g tok e1
    by (auto simp: edit_page_1_19_def get_tokens_def fetch_def cache_update_single update_conv'
        split: prod.splits dest!: send_log)
qed

lemma edit_page_1_19_cached:
  assumes "map_of (edit_tokens self) (PStr p) = Some tok"
    and "edit_page_1_19 srv self p t sm w = (res, self', w')"
  shows "\<exists>rq r'. self' = self \<and> is_post_data rq \<and> exchanges w' = exchanges w @ [(rq, r')]"
  using assms
  by (auto simp: edit_page_1_19_def split: prod.splits dest!: send_log)

lemma delete_page_1_19_uncached:
  assumes "map_of (delete_tokens self) (PStr p) = None"
    and "\<forall>s. \<exists>tok. get_tokens_result ''delete'' (fst (srv s (fetch self ''delete'' p))) = Inr [(PStr p, tok)]"
    and "delete_page_1_19 srv self p rs w = (res, self', w')"
  shows "\<exists>tok r rq r'. self' = self\<lparr>delete_tokens := AList.update (PStr p) tok (delete_tokens self)\<rparr>
       \<and> is_post_data rq \<and> exchanges w' = exchanges w @ [(fetch self ''delete'' p, r), (rq, r')]"
proof -
  obtain r w1 where g: "send srv (fetch self ''delete'' p) w = (r, w1)"
    by (cases "send srv (fetch self ''delete'' p) w") auto
  then have "r = fst (srv (srv_state w) (fetch self ''delete'' p))"
    by (auto simp: send_def split: prod.splits)
  with assms(2) obtain tok where tok: "get_tokens_result ''delete'' r = Inr [(PStr p, tok)]"
    by blast
  from g have e1: "exchanges w1 = exchanges w @ [(fetch self ''delete'' p, r)]" by (rule send_log)
  show ?thesis
    using assms(1,3) g tok e1
    by (auto simp: delete_page_1_19_def get_tokens_def fetch_def cache_update_single update_conv'
        split: prod.splits dest!: send_log)
qed

lemma delete_page_1_19_cached:
  assumes "map_of (delete_tokens self) (PStr p) = Some tok"
    and "delete_page_1_19 srv self p rs w = (res, self', w')"
  shows "\<exists>rq r'. self' = self \<and> is_post_data rq \<and> exchanges w' = exchanges w @ [(rq, r')]"
  using assms
  by (auto simp: delete_page_1_19_def split: prod.splits dest!: send_log)

lemma legacy_edit_scenario:
  assumes ab: "a \<noteq> b"
    and ha: "\<forall>s. \<exists>tok. get_tokens_result ''edit'' (fst (srv s (fetch (init_1_19 url) ''edit'' a))) = Inr [(PStr a, tok)]"
    and hb: "\<forall>s. \<exists>tok. get_tokens_result ''edit'' (fst (srv s (fetch (init_1_19 url) ''edit'' b))) = Inr [(PStr b, tok)]"
  shows "filter (\<lambda>rq. \<not> is_post_data rq)
           (requests (snd (run_1_19 srv [Edit_page a t1 s1, Edit_page b t2 s2, Edit_page a t3 s3]
              (init_1_19 url) (start s))))
         = [fetch (init_1_19 url) ''edit'' a, fetch (init_1_19 url) ''edit'' b]"
proof -
  let ?self = "init_1_19 url"
  obtain res1 self1 w1 where c1: "edit_page_1_19 srv ?self a t1 s1 (start s) = (res1, self1, w1)"
    by (cases "edit_page_1_19 srv ?self a t1 s1 (start s)") auto
  have n1: "map_of (edit_tokens ?self) (PStr a) = None" by (simp add: init_1_19_def)
  from edit_page_1_19_uncached [OF n1 ha c1] obtain tok1 r1 rq1 r1'
    where self1: "self1 = ?self\<lparr>edit_tokens := AList.update (PStr a) tok1 (edit_tokens ?self)\<rparr>"
      and p1: "is_post_data rq1"
      and e1: "exchanges w1 = exchanges (start s) @ [(fetch ?self ''edit'' a, r1), (rq1, r1')]"
    by blast
  have f1: "fetch self1 = fetch ?self" by (simp add: self1 fetch_def fun_eq_iff)
  obtain res2 self2 w2 where c2: "edit_page_1_19 srv self1 b t2 s2 w1 = (res2, self2, w2)"
    by (cases "edit_page_1_19 srv self1 b t2 s2 w1") auto
  have n2: "map_of (edit_tokens self1) (PStr b) = None"
    using ab by (simp add: self1 init_1_19_def)
  from hb have hb1: "\<forall>s. \<exists>tok. get_tokens_result ''edit'' (fst (srv s (fetch self1 ''edit'' b))) = Inr [(PStr b, tok)]"
    by (simp add: f1)
  from edit_page_1_19_uncached [OF n2 hb1 c2] obtain tok2 r2 rq2 r2'
    where self2: "self2 = self1\<lparr>edit_tokens := AList.update (PStr b) tok2 (edit_tokens self1)\<rparr>"
      and p2: "is_post_data rq2"
      and e2: "exchanges w2 = exchanges w1 @ [(fetch ?self ''edit'' b, r2), (rq2, r2')]"
    by (auto simp: f1)
  obtain res3 self3 w3 where c3: "edit_page_1_19 srv self2 a t3 s3 w2 = (res3, self3, w3)"
    by (cases "edit_page_1_19 srv self2 a t3 s3 w2") auto
  have s3: "map_of (edit_tokens self2) (PStr a) = Some tok1"
    using ab by (simp add: self2 self1 init_1_19_def)
  from edit_page_1_19_cached [OF s3 c3] obtain rq3 r3'
    where p3: "is_post_data rq3" and e3: "exchanges w3 = exchanges w2 @ [(rq3, r3')]"
    by blast
  have run: "run_1_19 srv [Edit_page a t1 s1, Edit_page b t2 s2, Edit_page a t3 s3] ?self (start s)
      = (self3, w3)"
    using c1 c2 c3 by simp
  have "requests w3 = [fetch ?self ''edit'' a, rq1, fetch ?self ''edit'' b, rq2, rq3]"
    using e1 e2 e3 by (simp add: requests_def start_def)
  with p1 p2 p3 run show ?thesis by (simp add: fetch_def)
qed


lemma legacy_delete_scenario:
  assumes ab: "a \<noteq> b"
    and ha: "\<forall>s. \<exists>tok. get_tokens_result ''delete'' (fst (srv s (fetch (init_1_19 url) ''delete'' a))) = Inr [(PStr a, tok)]"
    and hb: "\<forall>s. \<exists>tok. get_tokens_result ''delete'' (fst (srv s (fetch (init_1_19 url) ''delete'' b))) = Inr [(PStr b, tok)]"
  shows "filter (\<lambda>rq. \<not> is_post_data rq)
           (requests (snd (run_1_19 srv [Delete_page a s1, Delete_page b s2, Delete_page a s3]
              (init_1_19 url) (start s))))
         = [fetch (init_1_19 url) ''delete'' a, fetch (init_1_19 url) ''delete'' b]"
proof -
  let ?self = "init_1_19 url"
  obtain res1 self1 w1 where c1: "delete_page_1_19 srv ?self a s1 (start s) = (res1, self1, w1)"
    by (cases "delete_page_1_19 srv ?self a s1 (start s)") auto
  have n1: "map_of (delete_tokens ?self) (PStr a) = None" by (simp add: init_1_19_def)
  from delete_page_1_19_uncached [OF n1 ha c1] obtain tok1 r1 rq1 r1'
    where self1: "self1 = ?self\<lparr>delete_tokens := AList.update (PStr a) tok1 (delete_tokens ?self)\<rparr>"
      and p1: "is_post_data rq1"
      and e1: "exchanges w1 = exchanges (start s) @ [(fetch ?self ''delete'' a, r1), (rq1, r1')]"
    by blast
  have f1: "fetch self1 = fetch ?self" by (simp add: self1 fetch_def fun_eq_iff)
  obtain res2 self2 w2 where c2: "delete_page_1_19 srv self1 b s2 w1 = (res2, self2, w2)"
    by (cases "delete_page_1_19 srv self1 b s2 w1") auto
  have n2: "map_of (delete_tokens self1) (PStr b) = None"
    using ab by (simp add: self1 init_1_19_def)
  from hb have hb1: "\<forall>s. \<exists>tok. get_tokens_result ''delete'' (fst (srv s (fetch self1 ''delete'' b))) = Inr [(PStr b, tok)]"
    by (simp add: f1)
  from delete_page_1_19_uncached [OF n2 hb1 c2] obtain tok2 r2 rq2 r2'
    where self2: "self2 = self1\<lparr>delete_tokens := AList.update (PStr b) tok2 (delete_tokens self1)\<rparr>"
      and p2: "is_post_data rq2"
      and e2: "exchanges w2 = exchanges w1 @ [(fetch ?self ''delete'' b, r2), (rq2, r2')]"
    by (auto simp: f1)
  obtain res3 self3 w3 where c3: "delete_page_1_19 srv self2 a s3 w2 = (res3, self3, w3)"
    by (cases "delete_page_1_19 srv self2 a s3 w2") auto
  have s3: "map_of (delete_tokens self2) (PStr a) = Some tok1"
    using ab by (simp add: self2 self1 init_1_19_def)
  from delete_page_1_19_cached [OF s3 c3] obtain rq3 r3'
    where p3: "is_post_data rq3" and e3: "exchanges w3 = exchanges w2 @ [(rq3, r3')]"
    by blast
  have run: "run_1_19 srv [Delete_page a s1, Delete_page b s2, Delete_page a s3] ?self (start s)
      = (self3, w3)"
    using c1 c2 c3 by simp
  have "requests w3 = [fetch ?self ''delete'' a, rq1, fetch ?self ''delete'' b, rq2, rq3]"
    using e1 e2 e3 by (simp add: requests_def start_def)
  with p1 p2 p3 run show ?thesis by (simp add: fetch_def)
qed


text \<open>
  Claim C8, for class \<open>MediaWikiAPI1_19\<close>. Let the server answer every token query
  for the titles \<open>a\<close> and \<open>b\<close> with a token for that title. On a new object,
  editing \<open>a\<close>, then \<open>b\<close>, then \<open>a\<close> again makes exactly two requests that
  are not the POST of an edit: the token query naming \<open>a\<close> and the token query naming
  \<open>b\<close>, in that order. The second edit of \<open>a\<close> fetches nothing. The same holds
  for three deletions and tokens of type \<open>delete\<close>.
\<close>

theorem legacy_token_scoping:
  assumes "a \<noteq> b"
    and "\<forall>s. \<exists>tok. get_tokens_result ''edit'' (fst (srv s (fetch (init_1_19 url) ''edit'' a)))
           = Inr [(PStr a, tok)]"
    and "\<forall>s. \<exists>tok. get_tokens_result ''edit'' (fst (srv s (fetch (init_1_19 url) ''edit'' b)))
           = Inr [(PStr b, tok)]"
    and "\<forall>s. \<exists>tok. get_tokens_result ''delete'' (fst (srv s (fetch (init_1_19 url) ''delete'' a)))
           = Inr [(PStr a, tok)]"
    and "\<forall>s. \<exists>tok. get_tokens_result ''delete'' (fst (srv s (fetch (init_1_19 url) ''delete'' b)))
           = Inr [(PStr b, tok)]"
  shows "filter (\<lambda>rq. \<not> is_post_data rq)
           (requests (snd (run_1_19 srv [Edit_page a t1 s1, Edit_page b t2 s2, Edit_page a t3 s3]
              (init_1_19 url) (start s))))
         = [fetch (init_1_19 url) ''edit'' a, fetch (init_1_19 url) ''edit'' b]
       \<and> filter (\<lambda>rq. \<not> is_post_data rq)
           (requests (snd (run_1_19 srv [Delete_page a r1, Delete_page b r2, Delete_page a r3]
              (init_1_19 url) (start s))))
         = [fetch (init_1_19 url) ''delete'' a, fetch (init_1_19 url) ''delete'' b]"
  using legacy_edit_scenario [OF assms(1,2,3)] legacy_delete_scenario [OF assms(1,4,5)]
  by simp

lemma legacy_mock_tokens:
  "get_tokens_result k (fst (legacy_mock s (fetch (init_1_19 ''w'') k t))) = Inr [(PStr t, PStr ''T'')]"
  by (simp add: legacy_mock_def fetch_def tokens_params_def get_tokens_result_def response_defs)

theorem legacy_token_scoping_witness:
  "requests (snd (run_1_19 legacy_mock
       [Edit_page ''A'' ''x'' None, Edit_page ''B'' ''y'' None, Edit_page ''A'' ''z'' None]
       (init_1_19 ''w'') (start ())))
   = [Post_params ''w/api.php'' (tokens_params ''edit'' ''A''),
      Post_data ''w/api.php'' (edit_params ''A'' ''x'' None @ [(''token'', PTuple [PStr ''T''])]),
      Post_params ''w/api.php'' (tokens_params ''edit'' ''B''),
      Post_data ''w/api.php'' (edit_params ''B'' ''y'' None @ [(''token'', PTuple [PStr ''T''])]),
      Post_data ''w/api.php'' (edit_params ''A'' ''z'' None @ [(''token'', PTuple [PStr ''T''])])]
   \<and> filter (\<lambda>rq. \<not> is_post_data rq)
        (requests (snd (run_1_19 legacy_mock
           [Delete_page ''A'' None, Delete_page ''B'' None, Delete_page ''A'' None]
           (init_1_19 ''w'') (start ()))))
      = [Post_params ''w/api.php'' (tokens_params ''delete'' ''A''),
         Post_params ''w/api.php'' (tokens_params ''delete'' ''B'')]
   \<and> ''A'' \<noteq> ''B''"
proof -
  have ab: "''A'' \<noteq> ''B''" by simp
  have h: "\<forall>s. \<exists>tok. get_tokens_result k (fst (legacy_mock s (fetch (init_1_19 ''w'') k t)))
      = Inr [(PStr t, tok)]" for k t
    by (simp add: legacy_mock_tokens)
  have run: "requests (snd (run_1_19 legacy_mock
       [Edit_page ''A'' ''x'' None, Edit_page ''B'' ''y'' None, Edit_page ''A'' ''z'' None]
       (init_1_19 ''w'') (start ())))
   = [Post_params ''w/api.php'' (tokens_params ''edit'' ''A''),
      Post_data ''w/api.php'' (edit_params ''A'' ''x'' None @ [(''token'', PTuple [PStr ''T''])]),
      Post_params ''w/api.php'' (tokens_params ''edit'' ''B''),
      Post_data ''w/api.php'' (edit_params ''B'' ''y'' None @ [(''token'', PTuple [PStr ''T''])]),
      Post_data ''w/api.php'' (edit_params ''A'' ''z'' None @ [(''token'', PTuple [PStr ''T''])])]"
    by (simp add: edit_page_1_19_def get_tokens_def get_tokens_result_def cache_update_def
        legacy_mock_def tokens_params_def edit_params_def init_1_19_def send_def start_def
        requests_def response_defs)
  show ?thesis
    using legacy_token_scoping [OF ab h h h h, of "''x''" None "''y''" None "''z''" None "()"
        None None None] run
    by (simp add: fetch_def init_1_19_def)
qed

end
